theory Spec2Isabelle
  imports Complex_Main "HOL-Library.Sublist"
begin

section \<open>Data model\<close>

text \<open>
  The dashboard works on pandas tables of Reddit posts. A table is modelled as the list of
  its column names together with the list of its rows. A row is a record with one field
  for every column that some modelled function reads; the field of a row is meaningful
  only when the column's name is listed in \<open>columns\<close>, and every access to a column
  that is not listed raises \<open>KeyError\<close>, as \<open>df[name]\<close> does.

  Compound sentiment scores are Python floats; they are modelled as reals, so rounding
  is not part of the model, and the value pandas gives to the mean of no numbers is the
  separate constant \<open>NaN\<close>. A calendar date is its proleptic Gregorian ordinal
  (\<open>date.toordinal()\<close>), so that the order of dates is the order of integers. A
  creation timestamp is a date with the second of the day.
\<close>

type_synonym date = int

record datetime =
  ordinal :: date
  second_of_day :: nat

record post =
  title :: string
  score :: int
  num_comments :: int
  created :: datetime
  sentiment_compound :: real
  date :: date
  Sentiment :: string

record dataframe =
  columns :: "string list"
  rows :: "post list"

datatype pyfloat = Num real | NaN

datatype step = Savefig string | Image string | Output

datatype error =
  KeyError string
  | ZeroDivisionError
  | LibraryError step

text \<open>\<open>df[name]\<close>: the values of one column, or \<open>KeyError\<close>.\<close>

definition getitem :: "dataframe \<Rightarrow> string \<Rightarrow> (post \<Rightarrow> 'a) \<Rightarrow> error + 'a list" where
  "getitem df name field =
     (if name \<in> set (columns df) then Inr (map field (rows df)) else Inl (KeyError name))"

text \<open>\<open>df[name] = values\<close> on a copy: the column is appended when it is new and
  overwritten in place when it exists.\<close>

definition add_column :: "string \<Rightarrow> string list \<Rightarrow> string list" where
  "add_column name cols = (if name \<in> set cols then cols else cols @ [name])"

text \<open>\<open>df[mask]\<close>: the rows at which the Boolean mask is true, in their order.\<close>

definition mask_and :: "bool list \<Rightarrow> bool list \<Rightarrow> bool list" where
  "mask_and m1 m2 = map (\<lambda>(a, b). a \<and> b) (zip m1 m2)"

definition boolean_index :: "dataframe \<Rightarrow> bool list \<Rightarrow> dataframe" where
  "boolean_index df msk = df\<lparr>rows := map fst (filter snd (zip (rows df) msk))\<rparr>"

text \<open>\<open>df.empty\<close>: some axis of the table has length 0.\<close>

definition df_empty :: "dataframe \<Rightarrow> bool" where
  "df_empty df = (rows df = [] \<or> columns df = [])"

text \<open>\<open>Series.mean()\<close>: the mean of no values is NaN.\<close>

definition mean :: "real list \<Rightarrow> pyfloat" where
  "mean xs = (if xs = [] then NaN else Num (sum_list xs / real (length xs)))"

section \<open>Sentiment classification (app.py)\<close>

definition classify_sentiment :: "real \<Rightarrow> string" where
  "classify_sentiment compound_score =
     (if compound_score \<ge> 0.05 then ''Positive''
      else if compound_score \<le> - 0.05 then ''Negative''
      else ''Neutral'')"

section \<open>Normalisation (reddit\_fetch.py, app.py)\<close>

text \<open>
  \<open>process_reddit_data\<close> copies the table and sets the column \<open>date\<close> to the calendar
  date of \<open>created\<close>. The memoising decorators of \<open>process_reddit_data\<close> and
  \<open>cached_processing\<close> are taken to be transparent: the model is the function body.
\<close>

definition validate_reddit_data :: "dataframe \<Rightarrow> bool" where
  "validate_reddit_data df =
     list_all (\<lambda>col. col \<in> set (columns df)) [''title'', ''sentiment_compound'', ''created'']"

definition process_reddit_data :: "dataframe \<Rightarrow> error + dataframe" where
  "process_reddit_data df =
     (case getitem df ''created'' created of
        Inl e \<Rightarrow> Inl e
      | Inr cs \<Rightarrow>
          Inr \<lparr>columns = add_column ''date'' (columns df),
               rows = map (\<lambda>p. p\<lparr>date := ordinal (created p)\<rparr>) (rows df)\<rparr>)"

definition cached_processing :: "dataframe \<Rightarrow> error + dataframe" where
  "cached_processing df =
     (case process_reddit_data df of
        Inl e \<Rightarrow> Inl e
      | Inr processed_df \<Rightarrow>
          if ''sentiment_compound'' \<in> set (columns processed_df)
          then Inr \<lparr>columns = add_column ''Sentiment'' (columns processed_df),
                    rows = map (\<lambda>p. p\<lparr>Sentiment := classify_sentiment (sentiment_compound p)\<rparr>)
                             (rows processed_df)\<rparr>
          else Inr processed_df)"

section \<open>Filtering (app.py)\<close>

text \<open>
  The dashboard keeps the rows of \<open>original_df\<close> at which the conjunction of three
  column comparisons holds: \<open>date >= applied_dates[0]\<close>, \<open>date <= applied_dates[1]\<close>
  and \<open>score >= min_score\<close>.
\<close>

definition filtered_df :: "dataframe \<Rightarrow> date \<times> date \<Rightarrow> int \<Rightarrow> error + dataframe" where
  "filtered_df original_df applied_dates min_score =
     (case getitem original_df ''date'' date of
        Inl e \<Rightarrow> Inl e
      | Inr ds \<Rightarrow>
          (case getitem original_df ''score'' score of
             Inl e \<Rightarrow> Inl e
           | Inr ss \<Rightarrow>
               Inr (boolean_index original_df
                      (mask_and
                         (mask_and (map (\<lambda>d. d \<ge> fst applied_dates) ds)
                                   (map (\<lambda>d. d \<le> snd applied_dates) ds))
                         (map (\<lambda>s. s \<ge> min_score) ss)))))"

section \<open>Keyword and topic tagging (industry\_analysis.py, morocco\_analysis.py)\<close>

text \<open>
  Titles are matched with \<open>Series.str.contains(pat, case=False, na=False)\<close>, a
  case-insensitive regular-expression search. The model covers the patterns the keyword
  tables produce: literal alternatives separated by \<open>|\<close>, where a backslash makes the
  next character literal (the output of \<open>re.escape\<close>). A title contains the pattern
  when one of the alternatives occurs in it; the empty alternative occurs in every
  title. Other regular-expression operators are outside the model, and letter case is
  folded for ASCII letters.
\<close>

definition and_then :: "error + 'a \<Rightarrow> ('a \<Rightarrow> error + 'b) \<Rightarrow> error + 'b" where
  "and_then r f = (case r of Inl e \<Rightarrow> Inl e | Inr x \<Rightarrow> f x)"

definition lower_char :: "char \<Rightarrow> char" where
  "lower_char c =
     (let n = (of_char c :: nat) in if 65 \<le> n \<and> n \<le> 90 then char_of (n + 32) else c)"

definition lower :: "string \<Rightarrow> string" where
  "lower s = map lower_char s"

definition backslash :: char where
  "backslash = CHR 0x5C"

definition special_chars :: string where
  "special_chars =
     ''()[]{}?*+-|^$.&~# '' @ [backslash, CHR 0x09, CHR 0x0A, CHR 0x0D, CHR 0x0B, CHR 0x0C]"

definition re_escape :: "string \<Rightarrow> string" where
  "re_escape s = concat (map (\<lambda>c. if c \<in> set special_chars then [backslash, c] else [c]) s)"

fun join :: "string \<Rightarrow> string list \<Rightarrow> string" where
  "join sep [] = []"
| "join sep [t] = t"
| "join sep (t # u # us) = t @ sep @ join sep (u # us)"

fun push :: "char \<Rightarrow> string list \<Rightarrow> string list" where
  "push c [] = [[c]]"
| "push c (a # as) = (c # a) # as"

fun alternatives :: "string \<Rightarrow> string list" where
  "alternatives [] = [[]]"
| "alternatives (c # cs) =
     (if c = backslash then
        (case cs of [] \<Rightarrow> [[c]] | d # ds \<Rightarrow> push d (alternatives ds))
      else if c = CHR ''|'' then [] # alternatives cs
      else push c (alternatives cs))"

definition str_contains :: "string \<Rightarrow> string \<Rightarrow> bool" where
  "str_contains pat s = list_ex (\<lambda>alt. sublist (lower alt) (lower s)) (alternatives pat)"

text \<open>\<open>df[df["title"].str.contains(pat, case=False, na=False)]\<close>\<close>

definition title_contains :: "dataframe \<Rightarrow> string \<Rightarrow> error + dataframe" where
  "title_contains df pat =
     and_then (getitem df ''title'' title)
       (\<lambda>titles. Inr (boolean_index df (map (str_contains pat) titles)))"

text \<open>\<open>if search_term:\<close> filters only for a term that is neither None nor empty.\<close>

definition search_filter :: "dataframe \<Rightarrow> string option \<Rightarrow> error + dataframe" where
  "search_filter df search_term =
     (case search_term of
        None \<Rightarrow> Inr df
      | Some s \<Rightarrow> if s = [] then Inr df else title_contains df s)"


definition GLOBAL_INDUSTRIES :: "(string \<times> string list) list" where
  "GLOBAL_INDUSTRIES =
     [(''Real Estate'', [''house'', ''property'', ''rent'', ''buy'', ''lease'', ''real estate'', ''immobilier'']),
      (''Tech'', [''AI'', ''software'', ''app'', ''code'', ''programming'', ''algorithm'']),
      (''Finance'', [''bank'', ''loan'', ''invest'', ''stock'', ''crypto'', ''money'']),
      (''Education'', [''school'', ''university'', ''learn'', ''student'', ''course'']),
      (''Healthcare'', [''hospital'', ''doctor'', ''medicine'', ''health'', ''patient'']),
      (''Tourism'', [''hotel'', ''travel'', ''visit'', ''tour'', ''vacation''])]"

record industry_result =
  Industry :: string
  Posts :: nat
  Avg_Sentiment :: pyfloat

text \<open>
  The loop of \<open>analyze_industries\<close> over the items of the industry table, in the
  table's order.
\<close>

fun industry_loop ::
  "(string \<times> string list) list \<Rightarrow> dataframe \<Rightarrow> string option \<Rightarrow> error + industry_result list"
where
  "industry_loop [] df search_term = Inr []"
| "industry_loop ((industry, terms) # rest) df search_term =
     and_then (title_contains df (join ''|'' terms))
       (\<lambda>by_terms. and_then (search_filter by_terms search_term)
          (\<lambda>industry_posts.
             if \<not> df_empty industry_posts then
               and_then (getitem industry_posts ''sentiment_compound'' sentiment_compound)
                 (\<lambda>scores. and_then (industry_loop rest df search_term)
                    (\<lambda>industry_results.
                       Inr (\<lparr>Industry = industry, Posts = length (rows industry_posts),
                             Avg_Sentiment = mean scores\<rparr> # industry_results)))
             else industry_loop rest df search_term))"

definition analyze_industries :: "dataframe \<Rightarrow> string option \<Rightarrow> error + industry_result list option" where
  "analyze_industries df search_term =
     (if df_empty df then Inr None
      else and_then (industry_loop GLOBAL_INDUSTRIES df search_term) (\<lambda>rs. Inr (Some rs)))"

text \<open>
  \<open>get_morocco_metrics\<close>. The list of top keywords, which the source takes from a
  library vectoriser when it is installed, is read from the titles of the matching posts
  and is not part of the modelled result.
\<close>

record morocco_metrics =
  morocco_posts :: dataframe
  avg_sentiment :: pyfloat
  post_count :: nat
  sample_posts :: "(string \<times> real) list"

definition get_morocco_metrics ::
  "dataframe \<Rightarrow> string list \<Rightarrow> string option \<Rightarrow> error + morocco_metrics option" where
  "get_morocco_metrics df keywords search_term =
     (if df_empty df then Inr None
      else
        and_then (search_filter df search_term)
          (\<lambda>searched.
             and_then
               (if keywords \<noteq> []
                then title_contains searched (join ''|'' (map re_escape keywords))
                else Inr searched)
               (\<lambda>posts.
                  if df_empty posts then Inr None
                  else
                    and_then (getitem posts ''title'' title)
                      (\<lambda>titles. and_then (getitem posts ''sentiment_compound'' sentiment_compound)
                         (\<lambda>scores.
                            Inr (Some \<lparr>morocco_posts = posts,
                                       avg_sentiment = mean scores,
                                       post_count = length (rows posts),
                                       sample_posts = take 3 (zip titles scores)\<rparr>))))))"

text \<open>\<open>render_morocco_analysis\<close> shows nothing without keywords or posts, and a warning
  when no post matches.\<close>

definition render_morocco_analysis ::
  "dataframe \<Rightarrow> string list \<Rightarrow> string option \<Rightarrow> error + (string \<times> string) list" where
  "render_morocco_analysis df keywords search_term =
     (if keywords = [] \<or> df_empty df then Inr []
      else
        and_then (get_morocco_metrics df keywords search_term)
          (\<lambda>metrics. case metrics of
             None \<Rightarrow> Inr [(''warning'', ''No matching posts found. Try different keywords or broader search.'')]
           | Some m \<Rightarrow> Inr []))"

definition render_industry_analysis ::
  "dataframe \<Rightarrow> string option \<Rightarrow> error + (string \<times> string) list" where
  "render_industry_analysis df search_term =
     and_then (analyze_industries df search_term)
       (\<lambda>industry_df. case industry_df of
          None \<Rightarrow> Inr [(''warning'', ''No industry patterns detected. Try a more common term.'')]
        | Some rs \<Rightarrow>
            if rs = [] then Inr [(''warning'', ''No industry patterns detected. Try a more common term.'')]
            else Inr [])"

section \<open>Sorting and top posts (app.py, report\_generator.py)\<close>

text \<open>
  The dashboard sorts by one of four numeric columns. Their values are compared as
  numbers; integer columns are read as reals, which keeps their order. pandas does not
  promise an order among rows with equal keys for its default sorting algorithm; the
  model keeps such rows in their original order, which is also what
  \<open>nlargest(keep='first')\<close> documents.
\<close>

definition column_key :: "string \<Rightarrow> (post \<Rightarrow> real) option" where
  "column_key name =
     (if name = ''score'' then Some (\<lambda>p. real_of_int (score p))
      else if name = ''num_comments'' then Some (\<lambda>p. real_of_int (num_comments p))
      else if name = ''date'' then Some (\<lambda>p. real_of_int (date p))
      else if name = ''sentiment_compound'' then Some sentiment_compound
      else None)"

definition sort_values :: "dataframe \<Rightarrow> string \<Rightarrow> bool \<Rightarrow> error + dataframe" where
  "sort_values df by ascending =
     (if by \<notin> set (columns df) then Inl (KeyError by)
      else case column_key by of
             None \<Rightarrow> Inl (KeyError by)
           | Some k \<Rightarrow>
               Inr (df\<lparr>rows := (if ascending then sort_key k (rows df)
                                 else sort_key (\<lambda>p. - k p) (rows df))\<rparr>))"

definition head :: "nat \<Rightarrow> dataframe \<Rightarrow> dataframe" where
  "head n df = df\<lparr>rows := take n (rows df)\<rparr>"

definition nlargest :: "nat \<Rightarrow> string \<Rightarrow> dataframe \<Rightarrow> error + dataframe" where
  "nlargest n by df = and_then (sort_values df by False) (\<lambda>sorted_df. Inr (head n sorted_df))"

datatype sort_option = Highest_Score | Most_Comments | Most_Recent | Most_Positive

fun sort_options :: "sort_option \<Rightarrow> string" where
  "sort_options Highest_Score = ''score''"
| "sort_options Most_Comments = ''num_comments''"
| "sort_options Most_Recent = ''date''"
| "sort_options Most_Positive = ''sentiment_compound''"

definition top_posts :: "dataframe \<Rightarrow> sort_option \<Rightarrow> nat \<Rightarrow> error + dataframe" where
  "top_posts df sort_by show_count =
     (let sort_column = sort_options sort_by;
          ascending = (if sort_by = Most_Recent then sort_column = ''date'' else False)
      in and_then (sort_values df sort_column ascending)
           (\<lambda>sorted_df. Inr (head show_count sorted_df)))"

text \<open>The first of the given columns that the table lacks raises \<open>KeyError\<close>.\<close>

fun require_columns :: "string list \<Rightarrow> dataframe \<Rightarrow> error + unit" where
  "require_columns [] df = Inr ()"
| "require_columns (c # cs) df =
     (if c \<in> set (columns df) then require_columns cs df else Inl (KeyError c))"

text \<open>The tab of top posts renders one card per row, reading four of its columns.\<close>

definition top_posts_tab :: "dataframe \<Rightarrow> sort_option \<Rightarrow> nat \<Rightarrow> error + dataframe" where
  "top_posts_tab df sort_by show_count =
     and_then (top_posts df sort_by show_count)
       (\<lambda>shown. if rows shown = [] then Inr shown
                 else and_then (require_columns [''title'', ''num_comments'', ''score'', ''date''] shown)
                        (\<lambda>u. Inr shown))"

section \<open>Report generation (report\_generator.py)\<close>

text \<open>
  A metric of the rendered document is a label with a formatted value. The model keeps
  the number under each format: \<open>Int_str n\<close> is \<open>str(n)\<close>, \<open>Fixed d x\<close> is \<open>x\<close> printed
  with \<open>d\<close> decimals, and \<open>Count_pct n p\<close> is the count \<open>n\<close> followed by the percentage
  \<open>p\<close> with one decimal.
\<close>

datatype cell_text = Plain string | Int_str nat | Fixed nat pyfloat | Count_pct nat real

datatype element =
  Header string
  | Metrics "(string \<times> cell_text) list"
  | Picture string
  | Recommendations "string list"
  | Footer

text \<open>Python's \<open>/\<close> on two counts.\<close>

definition py_div :: "nat \<Rightarrow> nat \<Rightarrow> error + real" where
  "py_div a b = (if b = 0 then Inl ZeroDivisionError else Inr (real a / real b))"

text \<open>\<open>len(self.df[self.df["Sentiment"] == label])\<close>\<close>

definition count_label :: "dataframe \<Rightarrow> string \<Rightarrow> error + nat" where
  "count_label df label =
     and_then (getitem df ''Sentiment'' Sentiment)
       (\<lambda>labels. Inr (length (rows (boolean_index df (map (\<lambda>l. l = label) labels)))))"

definition add_metrics_section :: "dataframe \<Rightarrow> string \<Rightarrow> error + (string \<times> cell_text) list" where
  "add_metrics_section df term =
     and_then (count_label df ''Positive'') (\<lambda>positive.
     and_then (count_label df ''Negative'') (\<lambda>negative.
     and_then (count_label df ''Neutral'') (\<lambda>neutral.
     and_then (getitem df ''sentiment_compound'' sentiment_compound) (\<lambda>scores.
     and_then (py_div positive (length (rows df))) (\<lambda>positive_share.
     and_then (py_div negative (length (rows df))) (\<lambda>negative_share.
     and_then (py_div neutral (length (rows df))) (\<lambda>neutral_share.
       Inr [(''Search Term'', Plain term),
            (''Total Posts'', Int_str (length (rows df))),
            (''Avg Sentiment'', Fixed 2 (mean scores)),
            (''Positive Posts'', Count_pct positive (positive_share * 100)),
            (''Negative Posts'', Count_pct negative (negative_share * 100)),
            (''Neutral Posts'', Count_pct neutral (neutral_share * 100))])))))))"

record json_report =
  search_term :: string
  analysis_date :: string
  total_posts :: nat
  average_sentiment :: pyfloat
  positive :: nat
  negative :: nat
  neutral :: nat
  top5 :: "(string \<times> string \<times> int \<times> int) list"

definition generate_json :: "dataframe \<Rightarrow> string \<Rightarrow> string \<Rightarrow> error + json_report" where
  "generate_json df term generated =
     and_then (count_label df ''Positive'') (\<lambda>pos.
     and_then (count_label df ''Negative'') (\<lambda>neg.
     and_then (count_label df ''Neutral'') (\<lambda>neu.
     and_then (getitem df ''sentiment_compound'' sentiment_compound) (\<lambda>scores.
     and_then (nlargest 5 ''score'' df) (\<lambda>largest.
     and_then (require_columns [''title'', ''Sentiment'', ''score'', ''num_comments''] largest) (\<lambda>u.
       Inr \<lparr>search_term = term, analysis_date = generated,
            total_posts = length (rows df),
            average_sentiment = mean scores,
            positive = pos, negative = neg, neutral = neu,
            top5 = map (\<lambda>p. (title p, Sentiment p, score p, num_comments p)) (rows largest)\<rparr>))))))"

text \<open>
  The charts of the document are written as image files into the generator's temporary
  directory. Saving a figure, embedding an image and writing the document are calls into
  plotting and PDF libraries that can raise; \<open>fails\<close> says which of them do in a given
  run. The temporary directory is the explicit state.
\<close>

record tempdir =
  dir_exists :: bool
  files :: "string list"

type_synonym 'a assembly = "tempdir \<Rightarrow> (error + 'a) \<times> tempdir"

definition finish :: "'a \<Rightarrow> 'a assembly" where
  "finish x td = (Inr x, td)"

definition lift :: "error + 'a \<Rightarrow> 'a assembly" where
  "lift r td = (r, td)"

definition next_do :: "'a assembly \<Rightarrow> ('a \<Rightarrow> 'b assembly) \<Rightarrow> 'b assembly" where
  "next_do m f td = (case m td of (Inl e, td') \<Rightarrow> (Inl e, td') | (Inr x, td') \<Rightarrow> f x td')"

text \<open>\<open>tempfile.mkdtemp()\<close> in the constructor: a fresh, empty directory.\<close>

definition mkdtemp :: tempdir where
  "mkdtemp = \<lparr>dir_exists = True, files = []\<rparr>"

definition save_chart :: "(step \<Rightarrow> bool) \<Rightarrow> string \<Rightarrow> string assembly" where
  "save_chart fails filename td =
     (if fails (Savefig filename) then (Inl (LibraryError (Savefig filename)), td)
      else (Inr filename, td\<lparr>files := List.insert filename (files td)\<rparr>))"

definition embed_image :: "(step \<Rightarrow> bool) \<Rightarrow> string \<Rightarrow> element assembly" where
  "embed_image fails chart_path td =
     (if fails (Image chart_path) then (Inl (LibraryError (Image chart_path)), td)
      else (Inr (Picture chart_path), td))"

definition add_visuals_section :: "(step \<Rightarrow> bool) \<Rightarrow> dataframe \<Rightarrow> element list assembly" where
  "add_visuals_section fails df =
     next_do
       (if ''Sentiment'' \<in> set (columns df)
        then next_do (save_chart fails ''sentiment.png'')
               (\<lambda>chart_path. next_do (embed_image fails chart_path) (\<lambda>pic. finish [pic]))
        else finish [])
       (\<lambda>distribution.
     next_do
       (if ''date'' \<in> set (columns df)
        then next_do (lift (getitem df ''sentiment_compound'' sentiment_compound))
               (\<lambda>scores. next_do (save_chart fails ''trend.png'')
                  (\<lambda>chart_path. next_do (embed_image fails chart_path) (\<lambda>pic. finish [pic])))
        else finish [])
       (\<lambda>trend.
     next_do
       (if ''industry'' \<in> set (columns df)
        then next_do (lift (getitem df ''sentiment_compound'' sentiment_compound))
               (\<lambda>scores. next_do (save_chart fails ''industry.png'')
                  (\<lambda>chart_path. next_do (embed_image fails chart_path) (\<lambda>pic. finish [pic])))
        else finish [])
       (\<lambda>industry. finish (distribution @ trend @ industry))))"

definition recommendations :: "string list" where
  "recommendations =
     [''Monitor spikes in negative sentiment to identify potential PR crises early.'',
      ''Leverage positive discussions by engaging with supportive communities.'',
      ''Consider deeper analysis by industry or region for targeted strategies.'',
      ''Export the dataset regularly for offline review and archiving.'']"

definition build_pdf_content ::
  "(step \<Rightarrow> bool) \<Rightarrow> dataframe \<Rightarrow> string \<Rightarrow> string \<Rightarrow> element list assembly" where
  "build_pdf_content fails df term generated =
     next_do (lift (add_metrics_section df term)) (\<lambda>metrics.
     next_do (add_visuals_section fails df) (\<lambda>visuals.
       finish ([Header generated, Metrics metrics] @ visuals @ [Recommendations recommendations, Footer])))"

text \<open>
  \<open>generate_pdf\<close>: the content is built, the document is written, and then the files of
  the temporary directory and the directory itself are removed. An exception of an
  earlier step leaves the function before the removal.
\<close>

definition generate_pdf ::
  "(step \<Rightarrow> bool) \<Rightarrow> dataframe \<Rightarrow> string \<Rightarrow> string \<Rightarrow> element list assembly" where
  "generate_pdf fails df term generated =
     next_do (build_pdf_content fails df term generated) (\<lambda>doc.
     next_do (\<lambda>td. if fails Output then (Inl (LibraryError Output), td) else (Inr doc, td)) (\<lambda>pdf_bytes.
       (\<lambda>td. (Inr pdf_bytes, \<lparr>dir_exists = False, files = []\<rparr>))))"

section \<open>The dashboard script (app.py)\<close>

text \<open>
  The script runs from top to bottom once per user action. The session state survives
  between runs. One run is given the values of the widgets: the range of the date picker,
  whether Apply or Fetch was pressed, a new value of the score slider, the keyword, the
  table that the chosen data source delivers, and the choices of the tabs. A status is
  the kind and the text of \<open>render_status_indicator\<close>; interpolated counts are left
  out of the texts.
\<close>

record session_state =
  original_df :: "dataframe option"
  raw_count :: nat
  temp_dates :: "date \<times> date"
  applied_dates :: "date \<times> date"
  min_score :: int
  current_keyword :: string
  fetch_clicked :: bool
  data_ready :: bool

datatype source = Fetch_Reddit_Data dataframe | Upload_CSV_File "dataframe option"

record widgets =
  selected_dates :: "date list"
  apply_pressed :: bool
  min_score_slider :: "int option"
  fetch_pressed :: bool
  keyword :: string
  data_source :: source
  morocco_keywords :: "string list"
  sort_by :: sort_option
  show_count :: nat

text \<open>The initial session state; \<open>today\<close> is \<open>datetime.date.today()\<close> and 736767 is the
  ordinal of 14 March 2018.\<close>

definition initial_state :: "date \<Rightarrow> session_state" where
  "initial_state today =
     \<lparr>original_df = None, raw_count = 0, temp_dates = (736767, today),
      applied_dates = (736767, today), min_score = 0, current_keyword = [],
      fetch_clicked = False, data_ready = False\<rparr>"

definition validate_inputs :: "session_state \<Rightarrow> string list" where
  "validate_inputs st =
     (if fst (temp_dates st) > snd (temp_dates st)
      then [''Start date must be before end date''] else [])"


text \<open>Loading a table that a data source delivered, under the keyword to remember.\<close>

definition load_data ::
  "session_state \<Rightarrow> dataframe \<Rightarrow> string \<Rightarrow> string \<times> string \<Rightarrow> string \<times> string
     \<Rightarrow> session_state \<times> (string \<times> string) list" where
  "load_data st df kw success failure =
     (if validate_reddit_data df then
        (case cached_processing df of
           Inl e \<Rightarrow> (st\<lparr>data_ready := False\<rparr>, [(''error'', ''An error occurred'')])
         | Inr processed \<Rightarrow>
             (st\<lparr>original_df := Some processed, raw_count := length (rows df),
                  current_keyword := kw, data_ready := True\<rparr>, [success]))
      else (st\<lparr>data_ready := False\<rparr>, [failure]))"

text \<open>The handler of the button "Fetch and Analyze Data".\<close>

definition fetch_button :: "session_state \<Rightarrow> widgets \<Rightarrow> session_state \<times> (string \<times> string) list" where
  "fetch_button st0 w =
     (let st = st0\<lparr>fetch_clicked := True\<rparr>;
          validation_errors = validate_inputs st
      in if validation_errors \<noteq> [] then
           (st\<lparr>data_ready := False\<rparr>, map (\<lambda>e. (''error'', e)) validation_errors)
         else
           (case data_source w of
              Fetch_Reddit_Data df \<Rightarrow>
                load_data st df (keyword w)
                  (''success'', ''Successfully fetched posts from Reddit!'')
                  (''error'', ''Invalid data format received from Reddit'')
            | Upload_CSV_File (Some df) \<Rightarrow>
                load_data st df ''uploaded''
                  (''success'', ''CSV loaded successfully'')
                  (''error'', ''CSV missing required columns (needs 'sentiment_compound' column)'')
            | Upload_CSV_File None \<Rightarrow>
                (st\<lparr>data_ready := False\<rparr>, [(''warning'', ''Please upload a CSV file first'')])))"

text \<open>
  What the main part of the page shows in one run: the filtered table when it is
  computed, the statuses, the two exports of the report when they are generated, and an
  exception that no handler of the script catches.
\<close>

record page =
  shown :: "dataframe option"
  notices :: "(string \<times> string) list"
  pdf_export :: "((error + element list) \<times> tempdir) option"
  json_export :: "(error + json_report) option"
  uncaught :: "error option"

definition blank :: page where
  "blank = \<lparr>shown = None, notices = [], pdf_export = None, json_export = None, uncaught = None\<rparr>"

text \<open>The three tabs that compute on the table, inside the \<open>try\<close> of the tab section.\<close>

definition tabs :: "dataframe \<Rightarrow> session_state \<Rightarrow> widgets \<Rightarrow> error + (string \<times> string) list" where
  "tabs df st w =
     and_then (top_posts_tab df (sort_by w) (show_count w)) (\<lambda>cards.
     and_then (render_morocco_analysis df (morocco_keywords w) (Some (current_keyword st))) (\<lambda>m.
     and_then (render_industry_analysis df (Some (current_keyword st))) (\<lambda>i.
       Inr (m @ i))))"

definition main_content :: "(step \<Rightarrow> bool) \<Rightarrow> string \<Rightarrow> session_state \<Rightarrow> widgets \<Rightarrow> page" where
  "main_content fails now st w =
     (if fetch_clicked st \<and> data_ready st \<and> original_df st \<noteq> None then
        (case filtered_df (the (original_df st)) (applied_dates st) (min_score st) of
           Inl e \<Rightarrow> blank\<lparr>uncaught := Some e\<rparr>
         | Inr df \<Rightarrow>
             if df_empty df then
               blank\<lparr>shown := Some df,
                     notices := [(''warning'',
                       ''No posts match the selected filters. Please adjust the date range or score threshold.'')]\<rparr>
             else if length (rows df) > 1 then
               (case tabs df st w of
                  Inl e \<Rightarrow> blank\<lparr>shown := Some df, notices := [(''error'', ''Error displaying analysis'')]\<rparr>
                | Inr ns \<Rightarrow>
                    blank\<lparr>shown := Some df, notices := ns,
                          pdf_export := Some (generate_pdf fails df (current_keyword st) now mkdtemp),
                          json_export := Some (generate_json df (current_keyword st) now)\<rparr>)
             else
               blank\<lparr>shown := Some df,
                     notices := [(''warning'',
                       ''Not enough posts to display detailed analysis. Need at least 2 posts for comprehensive insights.'')]\<rparr>)
      else blank)"


section \<open>Example data\<close>

text \<open>The columns of a fetched table, a fetched row, and the same row after processing.\<close>

definition fetched_columns :: "string list" where
  "fetched_columns =
     [''title'', ''text'', ''score'', ''num_comments'', ''created'', ''url'',
      ''sentiment_neg'', ''sentiment_neu'', ''sentiment_pos'', ''sentiment_compound'']"

definition raw_post :: "string \<Rightarrow> int \<Rightarrow> date \<Rightarrow> real \<Rightarrow> post" where
  "raw_post t s d c =
     \<lparr>title = t, score = s, num_comments = 0, created = \<lparr>ordinal = d, second_of_day = 0\<rparr>,
      sentiment_compound = c, date = 0, Sentiment = []\<rparr>"

definition processed_post :: "string \<Rightarrow> int \<Rightarrow> date \<Rightarrow> real \<Rightarrow> post" where
  "processed_post t s d c = (raw_post t s d c)\<lparr>date := d, Sentiment := classify_sentiment c\<rparr>"


definition processed_table :: "post list \<Rightarrow> dataframe" where
  "processed_table ps = \<lparr>columns = fetched_columns @ [''date'', ''Sentiment''], rows = ps\<rparr>"

text \<open>A processed table of three posts, a session in which it is loaded, and widgets at rest.
  The ordinals 738886 and 738895 are 1 and 10 January 2024.\<close>

definition sample_table :: dataframe where
  "sample_table =
     processed_table [processed_post ''AI is great'' 10 738886 0.2,
                      processed_post ''I like cats'' 5 738887 (- 0.3),
                      processed_post ''New software released'' 50 738888 0]"

definition loaded_state :: session_state where
  "loaded_state =
     \<lparr>original_df = Some sample_table, raw_count = 3, temp_dates = (736767, 738895),
      applied_dates = (736767, 738895), min_score = 0, current_keyword = ''python'',
      fetch_clicked = True, data_ready = True\<rparr>"

definition idle_widgets :: widgets where
  "idle_widgets =
     \<lparr>selected_dates = [], apply_pressed = False, min_score_slider = None, fetch_pressed = False,
      keyword = ''python'', data_source = Upload_CSV_File None,
      morocco_keywords = [''Maroc'', ''Casablanca''], sort_by = Highest_Score, show_count = 10\<rparr>"


section \<open>Properties\<close>

lemma boolean_index_masks:
  "map fst (filter snd (zip xs (mask_and (mask_and (map P xs) (map Q xs)) (map R xs))))
     = filter (\<lambda>x. P x \<and> Q x \<and> R x) xs"
  by (induction xs) (simp_all add: mask_and_def)

text \<open>
  C1. For every compound score \<open>c\<close> the classification is Positive exactly when
  \<open>c \<ge> 0.05\<close>, Negative exactly when \<open>c \<le> -0.05\<close>, and Neutral exactly in the band
  between; every score gets one of the three labels.
\<close>

theorem classify_sentiment_thresholds:
  "(classify_sentiment c = ''Positive'' \<longleftrightarrow> c \<ge> 0.05)
   \<and> (classify_sentiment c = ''Negative'' \<longleftrightarrow> c \<le> - 0.05)
   \<and> (classify_sentiment c = ''Neutral'' \<longleftrightarrow> - 0.05 < c \<and> c < 0.05)
   \<and> classify_sentiment c \<in> {''Positive'', ''Negative'', ''Neutral''}"
  by (auto simp: classify_sentiment_def)











text \<open>
  C2. On a table with the columns \<open>date\<close> and \<open>score\<close>, the filter returns exactly the
  rows whose date lies between the two applied dates, both included, and whose score is at
  least the threshold; the result is a subsequence of the input in the input's order, and
  every retained row satisfies both conditions.
\<close>

theorem filter_exact:
  assumes "''date'' \<in> set (columns df)" and "''score'' \<in> set (columns df)"
  shows "\<exists>out. filtered_df df (start, stop) threshold = Inr out
            \<and> columns out = columns df
            \<and> rows out = filter (\<lambda>p. start \<le> date p \<and> date p \<le> stop \<and> threshold \<le> score p) (rows df)
            \<and> subseq (rows out) (rows df)
            \<and> (\<forall>p \<in> set (rows out). start \<le> date p \<and> date p \<le> stop \<and> threshold \<le> score p)"
  using assms
  by (simp add: filtered_df_def getitem_def boolean_index_def boolean_index_masks)

theorem filter_exact_witness:
  "''date'' \<in> set (columns (processed_table [processed_post ''first'' 10 100 0.2,
        processed_post ''second'' 5 101 (- 0.3), processed_post ''third'' 50 102 0]))
   \<and> ''score'' \<in> set (columns (processed_table [processed_post ''first'' 10 100 0.2,
        processed_post ''second'' 5 101 (- 0.3), processed_post ''third'' 50 102 0]))
   \<and> (\<exists>out. filtered_df (processed_table [processed_post ''first'' 10 100 0.2,
        processed_post ''second'' 5 101 (- 0.3), processed_post ''third'' 50 102 0]) (100, 102) 6 = Inr out
         \<and> rows out = [processed_post ''first'' 10 100 0.2, processed_post ''third'' 50 102 0]
         \<and> map Sentiment (rows out) = [''Positive'', ''Neutral'']
         \<and> mean (map sentiment_compound (rows out)) = Num 0.1)"
proof -
  let ?df = "processed_table [processed_post ''first'' 10 100 0.2,
        processed_post ''second'' 5 101 (- 0.3), processed_post ''third'' 50 102 0]"
  have d: "''date'' \<in> set (columns ?df)" and s: "''score'' \<in> set (columns ?df)"
    by (simp_all add: processed_table_def fetched_columns_def)
  from filter_exact [OF d s, of 100 102 6] obtain out
    where "filtered_df ?df (100, 102) 6 = Inr out"
      and "rows out = filter (\<lambda>p. 100 \<le> date p \<and> date p \<le> 102 \<and> 6 \<le> score p) (rows ?df)"
    by blast
  moreover have "filter (\<lambda>p. 100 \<le> date p \<and> date p \<le> 102 \<and> 6 \<le> score p) (rows ?df)
      = [processed_post ''first'' 10 100 0.2, processed_post ''third'' 50 102 0]"
    by (simp add: processed_table_def processed_post_def raw_post_def)
  moreover have "map Sentiment [processed_post ''first'' 10 100 0.2, processed_post ''third'' 50 102 0]
      = [''Positive'', ''Neutral'']"
    by (simp add: processed_post_def raw_post_def classify_sentiment_def)
  moreover have "mean (map sentiment_compound [processed_post ''first'' 10 100 0.2, processed_post ''third'' 50 102 0])
      = Num 0.1"
    by (simp add: processed_post_def raw_post_def mean_def)
  ultimately show ?thesis using d s by simp
qed

lemma and_then_Inr [simp]: "and_then (Inr x) f = f x"
  by (simp add: and_then_def)

lemma and_then_Inl [simp]: "and_then (Inl e) f = Inl e"
  by (simp add: and_then_def)

lemma and_then_eq_Inr:
  "and_then r f = Inr y \<longleftrightarrow> (\<exists>x. r = Inr x \<and> f x = Inr y)"
  by (cases r) simp_all

lemma boolean_index_map: "map fst (filter snd (zip xs (map P xs))) = filter P xs"
  by (induction xs) simp_all

lemma rows_boolean_index_map [simp]:
  "rows (boolean_index df (map P (rows df))) = filter P (rows df)"
  by (simp add: boolean_index_def boolean_index_map)

lemma columns_boolean_index [simp]: "columns (boolean_index df m) = columns df"
  by (simp add: boolean_index_def)

lemma count_label_eq:
  "count_label df label =
     (if ''Sentiment'' \<in> set (columns df)
      then Inr (length (filter (\<lambda>p. Sentiment p = label) (rows df)))
      else Inl (KeyError ''Sentiment''))"
proof -
  have "map (\<lambda>l. l = label) (map Sentiment (rows df)) = map (\<lambda>p. Sentiment p = label) (rows df)"
    by simp
  then show ?thesis
    unfolding count_label_def getitem_def by (simp del: map_map)
qed

lemma add_metrics_section_ok:
  assumes "''Sentiment'' \<in> set (columns df)" and "''sentiment_compound'' \<in> set (columns df)"
    and "rows df \<noteq> []"
  shows "add_metrics_section df term =
     Inr [(''Search Term'', Plain term),
          (''Total Posts'', Int_str (length (rows df))),
          (''Avg Sentiment'', Fixed 2 (mean (map sentiment_compound (rows df)))),
          (''Positive Posts'', Count_pct (length (filter (\<lambda>p. Sentiment p = ''Positive'') (rows df)))
             (real (length (filter (\<lambda>p. Sentiment p = ''Positive'') (rows df))) / real (length (rows df)) * 100)),
          (''Negative Posts'', Count_pct (length (filter (\<lambda>p. Sentiment p = ''Negative'') (rows df)))
             (real (length (filter (\<lambda>p. Sentiment p = ''Negative'') (rows df))) / real (length (rows df)) * 100)),
          (''Neutral Posts'', Count_pct (length (filter (\<lambda>p. Sentiment p = ''Neutral'') (rows df)))
             (real (length (filter (\<lambda>p. Sentiment p = ''Neutral'') (rows df))) / real (length (rows df)) * 100))]"
  unfolding add_metrics_section_def count_label_eq getitem_def py_div_def
  using assms by simp

lemma add_metrics_section_needs:
  assumes "add_metrics_section df term = Inr ms"
  shows "''Sentiment'' \<in> set (columns df) \<and> ''sentiment_compound'' \<in> set (columns df) \<and> rows df \<noteq> []"
proof -
  have s: "''Sentiment'' \<in> set (columns df)"
    using assms unfolding add_metrics_section_def count_label_eq
    by (cases "''Sentiment'' \<in> set (columns df)") simp_all
  have c: "''sentiment_compound'' \<in> set (columns df)"
    using assms s unfolding add_metrics_section_def count_label_eq getitem_def
    by (cases "''sentiment_compound'' \<in> set (columns df)") simp_all
  have r: "rows df \<noteq> []"
    using assms s c unfolding add_metrics_section_def count_label_eq getitem_def py_div_def
    by (cases "rows df = []") simp_all
  from s c r show ?thesis by simp
qed

lemma add_metrics_section_empty:
  "rows df = [] \<Longrightarrow> ''Sentiment'' \<in> set (columns df) \<Longrightarrow> ''sentiment_compound'' \<in> set (columns df)
     \<Longrightarrow> add_metrics_section df term = Inl ZeroDivisionError"
  unfolding add_metrics_section_def count_label_eq getitem_def py_div_def by simp


lemma sort_values_score:
  "''score'' \<in> set (columns df) \<Longrightarrow>
   sort_values df ''score'' False = Inr (df\<lparr>rows := sort_key (\<lambda>p. - real_of_int (score p)) (rows df)\<rparr>)"
  by (simp add: sort_values_def column_key_def)

lemma generate_json_ok:
  assumes "''Sentiment'' \<in> set (columns df)" and "''sentiment_compound'' \<in> set (columns df)"
    and "''score'' \<in> set (columns df)" and "''title'' \<in> set (columns df)"
    and "''num_comments'' \<in> set (columns df)"
  shows "generate_json df term generated =
     Inr \<lparr>search_term = term, analysis_date = generated,
          total_posts = length (rows df),
          average_sentiment = mean (map sentiment_compound (rows df)),
          positive = length (filter (\<lambda>p. Sentiment p = ''Positive'') (rows df)),
          negative = length (filter (\<lambda>p. Sentiment p = ''Negative'') (rows df)),
          neutral = length (filter (\<lambda>p. Sentiment p = ''Neutral'') (rows df)),
          top5 = map (\<lambda>p. (title p, Sentiment p, score p, num_comments p))
                   (take 5 (sort_key (\<lambda>p. - real_of_int (score p)) (rows df)))\<rparr>"
  unfolding generate_json_def count_label_eq getitem_def nlargest_def
  using assms by (simp add: sort_values_score head_def)

lemma generate_json_numbers:
  assumes "generate_json df term generated = Inr j"
  shows "total_posts j = length (rows df)
     \<and> average_sentiment j = mean (map sentiment_compound (rows df))
     \<and> positive j = length (filter (\<lambda>p. Sentiment p = ''Positive'') (rows df))
     \<and> negative j = length (filter (\<lambda>p. Sentiment p = ''Negative'') (rows df))
     \<and> neutral j = length (filter (\<lambda>p. Sentiment p = ''Neutral'') (rows df))"
proof -
  have s: "''Sentiment'' \<in> set (columns df)"
    using assms unfolding generate_json_def count_label_eq
    by (cases "''Sentiment'' \<in> set (columns df)") simp_all
  have c: "''sentiment_compound'' \<in> set (columns df)"
    using assms s unfolding generate_json_def count_label_eq getitem_def
    by (cases "''sentiment_compound'' \<in> set (columns df)") simp_all
  show ?thesis
    using assms s c unfolding generate_json_def count_label_eq getitem_def
    by (auto simp: and_then_eq_Inr)
qed

lemma next_do_eq_Inr:
  "next_do m f td = (Inr y, td') \<longleftrightarrow> (\<exists>x td1. m td = (Inr x, td1) \<and> f x td1 = (Inr y, td'))"
  by (auto simp: next_do_def split: prod.splits sum.splits)

lemma generate_pdf_Inr:
  assumes "generate_pdf fails df term generated td = (Inr doc, td')"
  shows "\<exists>ms visuals. add_metrics_section df term = Inr ms
           \<and> doc = [Header generated, Metrics ms] @ visuals @ [Recommendations recommendations, Footer]
           \<and> td' = \<lparr>dir_exists = False, files = []\<rparr>"
  using assms unfolding generate_pdf_def build_pdf_content_def next_do_eq_Inr
  by (auto simp: lift_def finish_def split: if_splits)

lemma chart_ok:
  "\<forall>s. \<not> fails s \<Longrightarrow>
   next_do (save_chart fails name) (\<lambda>chart_path. next_do (embed_image fails chart_path) (\<lambda>pic. finish [pic])) td
     = (Inr [Picture name], td\<lparr>files := List.insert name (files td)\<rparr>)"
  by (simp add: next_do_def save_chart_def embed_image_def finish_def)

lemma next_do_succeeds:
  assumes "\<And>td. \<exists>x td'. m td = (Inr x, td')" and "\<And>x td. \<exists>y td'. f x td = (Inr y, td')"
  shows "\<exists>y td'. next_do m f td = (Inr y, td')"
proof -
  from assms(1) obtain x td1 where "m td = (Inr x, td1)" by blast
  moreover from assms(2) obtain y td' where "f x td1 = (Inr y, td')" by blast
  ultimately show ?thesis by (simp add: next_do_def)
qed

lemma add_visuals_section_ok:
  assumes "\<forall>s. \<not> fails s" and "''sentiment_compound'' \<in> set (columns df)"
  shows "\<exists>visuals td'. add_visuals_section fails df td = (Inr visuals, td')"
proof -
  have lifted: "next_do (lift (getitem df ''sentiment_compound'' sentiment_compound)) f t
      = f (map sentiment_compound (rows df)) t" for f :: "real list \<Rightarrow> element list assembly" and t
    using assms(2) by (simp add: next_do_def lift_def getitem_def)
  have part1: "\<exists>x td'. (if c then next_do (save_chart fails name)
        (\<lambda>chart_path. next_do (embed_image fails chart_path) (\<lambda>pic. finish [pic])) else finish []) t
        = (Inr x, td')" for c name t
    by (cases c) (simp_all add: chart_ok [OF assms(1)] finish_def)
  have part2: "\<exists>x td'. (if c then next_do (lift (getitem df ''sentiment_compound'' sentiment_compound))
        (\<lambda>scores. next_do (save_chart fails name)
           (\<lambda>chart_path. next_do (embed_image fails chart_path) (\<lambda>pic. finish [pic]))) else finish []) t
        = (Inr x, td')" for c name t
    by (cases c) (simp_all add: lifted chart_ok [OF assms(1)] finish_def)
  show ?thesis
    unfolding add_visuals_section_def
    apply (rule next_do_succeeds, rule part1)
    apply (rule next_do_succeeds, rule part2)
    apply (rule next_do_succeeds, rule part2)
    apply (simp add: finish_def)
    done
qed

lemma generate_pdf_ok:
  assumes "\<forall>s. \<not> fails s" and "''Sentiment'' \<in> set (columns df)"
    and "''sentiment_compound'' \<in> set (columns df)" and "rows df \<noteq> []"
  shows "\<exists>doc. generate_pdf fails df term generated td = (Inr doc, \<lparr>dir_exists = False, files = []\<rparr>)"
proof -
  from add_metrics_section_ok [OF assms(2,3,4)] obtain ms where ms: "add_metrics_section df term = Inr ms"
    by blast
  from add_visuals_section_ok [OF assms(1,3)] obtain visuals td' where
    v: "add_visuals_section fails df td = (Inr visuals, td')" by blast
  show ?thesis
    unfolding generate_pdf_def build_pdf_content_def
    using assms(1) by (simp add: next_do_def lift_def ms v finish_def)
qed


text \<open>
  C4. The structured export and the rendered document report the same numbers. Whenever
  both are produced from a table, the metrics section of the document shows, under its
  formats, the total number of posts, the mean compound sentiment and the three counts
  per label of the structured record. Both are produced for every non-empty table with the
  columns they read, when no library call fails.
\<close>

theorem exports_report_same_numbers:
  "(generate_pdf fails df term generated td = (Inr doc, td') \<and> generate_json df term generated = Inr j
      \<longrightarrow> (\<exists>ms. Metrics ms \<in> set doc
             \<and> map_of ms ''Total Posts'' = Some (Int_str (total_posts j))
             \<and> map_of ms ''Avg Sentiment'' = Some (Fixed 2 (average_sentiment j))
             \<and> map_of ms ''Positive Posts''
                 = Some (Count_pct (positive j) (real (positive j) / real (total_posts j) * 100))
             \<and> map_of ms ''Negative Posts''
                 = Some (Count_pct (negative j) (real (negative j) / real (total_posts j) * 100))
             \<and> map_of ms ''Neutral Posts''
                 = Some (Count_pct (neutral j) (real (neutral j) / real (total_posts j) * 100))))
   \<and> ((\<forall>s. \<not> fails s) \<and> rows df \<noteq> []
        \<and> set [''title'', ''score'', ''num_comments'', ''sentiment_compound'', ''Sentiment''] \<subseteq> set (columns df)
      \<longrightarrow> (\<exists>doc td' j. generate_pdf fails df term generated td = (Inr doc, td')
             \<and> generate_json df term generated = Inr j))"
proof (intro conjI impI)
  assume a: "generate_pdf fails df term generated td = (Inr doc, td') \<and> generate_json df term generated = Inr j"
  then obtain ms visuals where ms: "add_metrics_section df term = Inr ms"
    and doc: "doc = [Header generated, Metrics ms] @ visuals @ [Recommendations recommendations, Footer]"
    using generate_pdf_Inr by blast
  from add_metrics_section_needs [OF ms] have cols: "''Sentiment'' \<in> set (columns df)"
    "''sentiment_compound'' \<in> set (columns df)" "rows df \<noteq> []" by simp_all
  from ms add_metrics_section_ok [OF cols] have ms_eq: "ms =
     [(''Search Term'', Plain term),
      (''Total Posts'', Int_str (length (rows df))),
      (''Avg Sentiment'', Fixed 2 (mean (map sentiment_compound (rows df)))),
      (''Positive Posts'', Count_pct (length (filter (\<lambda>p. Sentiment p = ''Positive'') (rows df)))
         (real (length (filter (\<lambda>p. Sentiment p = ''Positive'') (rows df))) / real (length (rows df)) * 100)),
      (''Negative Posts'', Count_pct (length (filter (\<lambda>p. Sentiment p = ''Negative'') (rows df)))
         (real (length (filter (\<lambda>p. Sentiment p = ''Negative'') (rows df))) / real (length (rows df)) * 100)),
      (''Neutral Posts'', Count_pct (length (filter (\<lambda>p. Sentiment p = ''Neutral'') (rows df)))
         (real (length (filter (\<lambda>p. Sentiment p = ''Neutral'') (rows df))) / real (length (rows df)) * 100))]"
    by simp
  from a have j: "total_posts j = length (rows df)"
    "average_sentiment j = mean (map sentiment_compound (rows df))"
    "positive j = length (filter (\<lambda>p. Sentiment p = ''Positive'') (rows df))"
    "negative j = length (filter (\<lambda>p. Sentiment p = ''Negative'') (rows df))"
    "neutral j = length (filter (\<lambda>p. Sentiment p = ''Neutral'') (rows df))"
    using generate_json_numbers by blast+
  have "Metrics ms \<in> set doc" by (simp add: doc)
  moreover have "map_of ms ''Total Posts'' = Some (Int_str (total_posts j))"
    by (simp add: ms_eq j)
  moreover have "map_of ms ''Avg Sentiment'' = Some (Fixed 2 (average_sentiment j))"
    by (simp add: ms_eq j)
  moreover have "map_of ms ''Positive Posts''
      = Some (Count_pct (positive j) (real (positive j) / real (total_posts j) * 100))"
    by (simp add: ms_eq j)
  moreover have "map_of ms ''Negative Posts''
      = Some (Count_pct (negative j) (real (negative j) / real (total_posts j) * 100))"
    by (simp add: ms_eq j)
  moreover have "map_of ms ''Neutral Posts''
      = Some (Count_pct (neutral j) (real (neutral j) / real (total_posts j) * 100))"
    by (simp add: ms_eq j)
  ultimately show "\<exists>ms. Metrics ms \<in> set doc
             \<and> map_of ms ''Total Posts'' = Some (Int_str (total_posts j))
             \<and> map_of ms ''Avg Sentiment'' = Some (Fixed 2 (average_sentiment j))
             \<and> map_of ms ''Positive Posts''
                 = Some (Count_pct (positive j) (real (positive j) / real (total_posts j) * 100))
             \<and> map_of ms ''Negative Posts''
                 = Some (Count_pct (negative j) (real (negative j) / real (total_posts j) * 100))
             \<and> map_of ms ''Neutral Posts''
                 = Some (Count_pct (neutral j) (real (neutral j) / real (total_posts j) * 100))"
    by blast
next
  assume b: "(\<forall>s. \<not> fails s) \<and> rows df \<noteq> []
        \<and> set [''title'', ''score'', ''num_comments'', ''sentiment_compound'', ''Sentiment''] \<subseteq> set (columns df)"
  then have cols: "''Sentiment'' \<in> set (columns df)" "''sentiment_compound'' \<in> set (columns df)"
    "''score'' \<in> set (columns df)" "''title'' \<in> set (columns df)" "''num_comments'' \<in> set (columns df)"
    by simp_all
  from b generate_pdf_ok [of fails df "term" generated td] cols
  obtain doc where "generate_pdf fails df term generated td = (Inr doc, \<lparr>dir_exists = False, files = []\<rparr>)"
    by blast
  moreover from generate_json_ok [OF cols] obtain j where "generate_json df term generated = Inr j"
    by blast
  ultimately show "\<exists>doc td' j. generate_pdf fails df term generated td = (Inr doc, td')
             \<and> generate_json df term generated = Inr j" by blast
qed

theorem exports_report_same_numbers_witness:
  "\<exists>doc td' j ms.
     generate_pdf (\<lambda>s. False)
       (processed_table [processed_post ''first'' 10 100 0.2, processed_post ''second'' 5 101 (- 0.3),
          processed_post ''third'' 50 102 0]) ''python'' ''2024-01-10 12:00'' mkdtemp = (Inr doc, td')
     \<and> generate_json
       (processed_table [processed_post ''first'' 10 100 0.2, processed_post ''second'' 5 101 (- 0.3),
          processed_post ''third'' 50 102 0]) ''python'' ''2024-01-10 12:00'' = Inr j
     \<and> Metrics ms \<in> set doc
     \<and> total_posts j = 3 \<and> map_of ms ''Total Posts'' = Some (Int_str 3)
     \<and> positive j = 1 \<and> map_of ms ''Positive Posts'' = Some (Count_pct 1 (1 / 3 * 100))"
proof -
  let ?df = "processed_table [processed_post ''first'' 10 100 0.2, processed_post ''second'' 5 101 (- 0.3),
          processed_post ''third'' 50 102 0]"
  note inst = exports_report_same_numbers [of "\<lambda>s. False" ?df "''python''" "''2024-01-10 12:00''" mkdtemp]
  have pre: "(\<forall>s. \<not> (\<lambda>s. False) s) \<and> rows ?df \<noteq> []
        \<and> set [''title'', ''score'', ''num_comments'', ''sentiment_compound'', ''Sentiment''] \<subseteq> set (columns ?df)"
    by (simp add: processed_table_def fetched_columns_def)
  from inst pre obtain doc td' j where
    both: "generate_pdf (\<lambda>s. False) ?df ''python'' ''2024-01-10 12:00'' mkdtemp = (Inr doc, td')
      \<and> generate_json ?df ''python'' ''2024-01-10 12:00'' = Inr j"
    by blast
  from inst both obtain ms where ms: "Metrics ms \<in> set doc"
     "map_of ms ''Total Posts'' = Some (Int_str (total_posts j))"
     "map_of ms ''Positive Posts'' = Some (Count_pct (positive j) (real (positive j) / real (total_posts j) * 100))"
    by blast
  have len: "length (rows ?df) = 3"
    by (simp add: processed_table_def)
  have pos: "length (filter (\<lambda>p. Sentiment p = ''Positive'') (rows ?df)) = 1"
    by (simp add: processed_table_def processed_post_def raw_post_def classify_sentiment_def)
  from both have gj: "generate_json ?df ''python'' ''2024-01-10 12:00'' = Inr j" by simp
  from generate_json_numbers [OF gj] have n: "total_posts j = 3" "positive j = 1"
    unfolding len pos by simp_all
  from both ms n show ?thesis by auto
qed

text \<open>
  The report builder has no guard of its own for a table without rows: the structured
  export returns a record whose mean is NaN, and the rendered document stops with
  \<open>ZeroDivisionError\<close> at the first percentage.
\<close>

theorem report_builder_unguarded_counterexample:
  "generate_json (processed_table []) ''python'' ''2024-01-10 12:00''
     = Inr \<lparr>search_term = ''python'', analysis_date = ''2024-01-10 12:00'', total_posts = 0,
            average_sentiment = NaN, positive = 0, negative = 0, neutral = 0, top5 = []\<rparr>
   \<and> generate_pdf (\<lambda>s. False) (processed_table []) ''python'' ''2024-01-10 12:00'' mkdtemp
     = (Inl ZeroDivisionError, mkdtemp)"
proof
  have cols: "''Sentiment'' \<in> set (columns (processed_table []))"
    "''sentiment_compound'' \<in> set (columns (processed_table []))"
    "''score'' \<in> set (columns (processed_table []))" "''title'' \<in> set (columns (processed_table []))"
    "''num_comments'' \<in> set (columns (processed_table []))"
    by (simp_all add: processed_table_def fetched_columns_def)
  show "generate_json (processed_table []) ''python'' ''2024-01-10 12:00''
     = Inr \<lparr>search_term = ''python'', analysis_date = ''2024-01-10 12:00'', total_posts = 0,
            average_sentiment = NaN, positive = 0, negative = 0, neutral = 0, top5 = []\<rparr>"
    unfolding generate_json_ok [OF cols] by (simp add: processed_table_def mean_def)
  have "add_metrics_section (processed_table []) ''python'' = Inl ZeroDivisionError"
    by (rule add_metrics_section_empty) (simp_all add: cols, simp add: processed_table_def)
  then show "generate_pdf (\<lambda>s. False) (processed_table []) ''python'' ''2024-01-10 12:00'' mkdtemp
     = (Inl ZeroDivisionError, mkdtemp)"
    by (simp add: generate_pdf_def build_pdf_content_def next_do_def lift_def)
qed


lemma main_content_empty:
  assumes "fetch_clicked st" and "data_ready st" and "original_df st = Some odf"
    and "filtered_df odf (applied_dates st) (min_score st) = Inr df" and "rows df = []"
  shows "main_content fails now st w =
     \<lparr>shown = Some df,
      notices = [(''warning'',
        ''No posts match the selected filters. Please adjust the date range or score threshold.'')],
      pdf_export = None, json_export = None, uncaught = None\<rparr>"
  using assms by (simp add: main_content_def blank_def df_empty_def)

lemma main_content_exports:
  assumes "pdf_export (main_content fails now st w) \<noteq> None
           \<or> json_export (main_content fails now st w) \<noteq> None"
  shows "\<exists>df. shown (main_content fails now st w) = Some df \<and> 2 \<le> length (rows df)"
proof (cases "fetch_clicked st \<and> data_ready st \<and> original_df st \<noteq> None")
  case False
  then have "main_content fails now st w = blank"
    unfolding main_content_def by (rule if_not_P)
  with assms show ?thesis by (simp add: blank_def)
next
  case True
  then have unfolded: "main_content fails now st w =
     (case filtered_df (the (original_df st)) (applied_dates st) (min_score st) of
           Inl e \<Rightarrow> blank\<lparr>uncaught := Some e\<rparr>
         | Inr df \<Rightarrow>
             if df_empty df then
               blank\<lparr>shown := Some df,
                     notices := [(''warning'',
                       ''No posts match the selected filters. Please adjust the date range or score threshold.'')]\<rparr>
             else if length (rows df) > 1 then
               (case tabs df st w of
                  Inl e \<Rightarrow> blank\<lparr>shown := Some df, notices := [(''error'', ''Error displaying analysis'')]\<rparr>
                | Inr ns \<Rightarrow>
                    blank\<lparr>shown := Some df, notices := ns,
                          pdf_export := Some (generate_pdf fails df (current_keyword st) now mkdtemp),
                          json_export := Some (generate_json df (current_keyword st) now)\<rparr>)
             else
               blank\<lparr>shown := Some df,
                     notices := [(''warning'',
                       ''Not enough posts to display detailed analysis. Need at least 2 posts for comprehensive insights.'')]\<rparr>)"
    unfolding main_content_def by (rule if_P)
  show ?thesis
  proof (cases "filtered_df (the (original_df st)) (applied_dates st) (min_score st)")
    case (Inl e)
    with assms show ?thesis unfolding unfolded by (simp add: blank_def)
  next
    case (Inr df)
    show ?thesis
    proof (cases "tabs df st w")
      case (Inl e)
      with assms Inr show ?thesis unfolding unfolded by (simp add: blank_def split: if_splits)
    next
      case tabs_ok: (Inr ns)
      with assms Inr show ?thesis unfolding unfolded by (simp add: blank_def split: if_splits)
    qed
  qed
qed

text \<open>
  C3 (as amended). The guard is in the dashboard. For a filtered table without rows the
  page shows the warning that no posts match the filters and generates neither export;
  whenever an export is generated, the table shown has at least two rows.
\<close>

theorem report_builder_gated_by_dashboard:
  "(fetch_clicked st \<and> data_ready st \<and> original_df st = Some odf
      \<and> filtered_df odf (applied_dates st) (min_score st) = Inr df \<and> rows df = []
    \<longrightarrow> main_content fails now st w =
         \<lparr>shown = Some df,
          notices = [(''warning'',
            ''No posts match the selected filters. Please adjust the date range or score threshold.'')],
          pdf_export = None, json_export = None, uncaught = None\<rparr>)
   \<and> (pdf_export (main_content fails now st w) \<noteq> None
        \<or> json_export (main_content fails now st w) \<noteq> None
    \<longrightarrow> (\<exists>shown_df. shown (main_content fails now st w) = Some shown_df \<and> 2 \<le> length (rows shown_df)))"
  using main_content_empty main_content_exports by blast


lemma sample_filtered_out:
  "filtered_df sample_table (736767, 738895) 60 = Inr (processed_table [])"
  by (simp add: filtered_df_def getitem_def sample_table_def processed_table_def fetched_columns_def
      boolean_index_def mask_and_def processed_post_def raw_post_def)

lemma sample_exported:
  "pdf_export (main_content (\<lambda>s. False) ''2024-01-10 12:00'' loaded_state idle_widgets) \<noteq> None"
  by code_simp

theorem report_builder_gated_by_dashboard_witness:
  "main_content (\<lambda>s. False) ''2024-01-10 12:00'' (loaded_state\<lparr>min_score := 60\<rparr>) idle_widgets =
         \<lparr>shown = Some (processed_table []),
          notices = [(''warning'',
            ''No posts match the selected filters. Please adjust the date range or score threshold.'')],
          pdf_export = None, json_export = None, uncaught = None\<rparr>
   \<and> (\<exists>shown_df. shown (main_content (\<lambda>s. False) ''2024-01-10 12:00'' loaded_state idle_widgets)
          = Some shown_df \<and> 2 \<le> length (rows shown_df))"
proof
  have pre: "fetch_clicked (loaded_state\<lparr>min_score := 60\<rparr>) \<and> data_ready (loaded_state\<lparr>min_score := 60\<rparr>)
      \<and> original_df (loaded_state\<lparr>min_score := 60\<rparr>) = Some sample_table
      \<and> filtered_df sample_table (applied_dates (loaded_state\<lparr>min_score := 60\<rparr>))
            (min_score (loaded_state\<lparr>min_score := 60\<rparr>)) = Inr (processed_table [])
      \<and> rows (processed_table []) = []"
    by (simp add: loaded_state_def sample_filtered_out processed_table_def)
  with report_builder_gated_by_dashboard
    [of "loaded_state\<lparr>min_score := 60\<rparr>" sample_table "processed_table []"]
  show "main_content (\<lambda>s. False) ''2024-01-10 12:00'' (loaded_state\<lparr>min_score := 60\<rparr>) idle_widgets =
         \<lparr>shown = Some (processed_table []),
          notices = [(''warning'',
            ''No posts match the selected filters. Please adjust the date range or score threshold.'')],
          pdf_export = None, json_export = None, uncaught = None\<rparr>"
    by blast
  from report_builder_gated_by_dashboard [of loaded_state _ _ "\<lambda>s. False" "''2024-01-10 12:00''" idle_widgets]
    sample_exported
  show "\<exists>shown_df. shown (main_content (\<lambda>s. False) ''2024-01-10 12:00'' loaded_state idle_widgets)
          = Some shown_df \<and> 2 \<le> length (rows shown_df)"
    by blast
qed

text \<open>
  The Fetch button validates the pending range: with a start date after the end date it
  reports the error, clears \<open>data_ready\<close>, and the main part of the page computes no
  filtered table.
\<close>

lemma fetch_button_rejects_inverted_range:
  assumes "fst (temp_dates st) > snd (temp_dates st)"
  shows "fetch_button st w =
           (st\<lparr>fetch_clicked := True, data_ready := False\<rparr>,
            [(''error'', ''Start date must be before end date'')])"
    and "main_content fails now (fst (fetch_button st w)) w = blank"
  using assms by (simp_all add: fetch_button_def validate_inputs_def Let_def main_content_def)


text \<open>
  What the choices compute: "Most Recent" sorts by date with \<open>ascending = True\<close>, the
  other choices sort in descending order.
\<close>

lemma top_posts_most_recent:
  "''date'' \<in> set (columns df) \<Longrightarrow>
   top_posts df Most_Recent n = Inr (df\<lparr>rows := take n (sort_key (\<lambda>p. real_of_int (date p)) (rows df))\<rparr>)"
  by (simp add: top_posts_def sort_values_def column_key_def head_def)

lemma top_posts_highest_score:
  "''score'' \<in> set (columns df) \<Longrightarrow>
   top_posts df Highest_Score n = Inr (df\<lparr>rows := take n (sort_key (\<lambda>p. - real_of_int (score p)) (rows df))\<rparr>)"
  by (simp add: top_posts_def sort_values_def column_key_def head_def)


text \<open>
  C9. The chart files should be deleted on every exit path of the document generation.
  They are deleted only after the document has been written. In a run in which writing
  the document raises, the function is left with both chart files still in the
  temporary directory.
\<close>

theorem chart_files_left_after_error:
  "generate_pdf (\<lambda>s. s = Output) sample_table ''python'' ''2024-01-10 12:00'' mkdtemp
     = (Inl (LibraryError Output), \<lparr>dir_exists = True, files = [''trend.png'', ''sentiment.png'']\<rparr>)"
  by code_simp








lemma push_nonempty: "push d xs \<noteq> []"
  by (cases xs) simp_all

text \<open>
  What the patterns mean. A pattern joined from escaped keywords, or from terms without
  \<open>|\<close> and backslash, has the keywords themselves as its alternatives, so a title
  contains it exactly when it contains one of them, letter case apart; the pattern joined
  from no keywords is contained in every title.
\<close>

lemma alternatives_nonempty: "alternatives s \<noteq> []"
proof (induction s rule: alternatives.induct)
  case 1
  show ?case by simp
next
  case (2 c cs)
  show ?case
  proof (cases cs)
    case Nil
    then show ?thesis by (simp add: push_nonempty)
  next
    case (Cons d ds)
    then show ?thesis by (simp add: push_nonempty)
  qed
qed



lemma alternatives_backslash: "alternatives (backslash # d # ds) = push d (alternatives ds)"
  by simp

lemma alternatives_plain:
  "c \<noteq> backslash \<Longrightarrow> c \<noteq> CHR ''|'' \<Longrightarrow> alternatives (c # cs) = push c (alternatives cs)"
  by simp

lemma alternatives_bar: "alternatives (CHR ''|'' # cs) = [] # alternatives cs"
  by (simp add: backslash_def)

lemma special_chars_mem: "backslash \<in> set special_chars" "CHR ''|'' \<in> set special_chars"
  by (simp_all add: special_chars_def)

lemma alternatives_escaped:
  "alternatives (re_escape k @ rest) = foldr push k (alternatives rest)"
proof (induction k)
  case Nil
  show ?case by (simp add: re_escape_def)
next
  case (Cons c k)
  show ?case
  proof (cases "c \<in> set special_chars")
    case True
    then have "re_escape (c # k) @ rest = backslash # c # (re_escape k @ rest)"
      by (simp add: re_escape_def)
    then show ?thesis
      by (simp only: alternatives_backslash Cons.IH foldr.simps o_apply)
  next
    case False
    then have "c \<noteq> backslash" and "c \<noteq> CHR ''|''"
      using special_chars_mem by auto
    then have "alternatives (c # (re_escape k @ rest)) = push c (alternatives (re_escape k @ rest))"
      by (rule alternatives_plain)
    moreover from False have "re_escape (c # k) @ rest = c # (re_escape k @ rest)"
      by (simp add: re_escape_def)
    ultimately show ?thesis
      by (simp only: Cons.IH foldr.simps o_apply)
  qed
qed

lemma foldr_push_Cons: "foldr push k (a # as) = (k @ a) # as"
  by (induction k) simp_all


lemma alternatives_join_escaped:
  "kws \<noteq> [] \<Longrightarrow> alternatives (join ''|'' (map re_escape kws)) = kws"
proof (induction kws rule: induct_list012)
  case 1
  then show ?case by simp
next
  case (2 k)
  have "alternatives (re_escape k @ []) = foldr push k (alternatives [])"
    by (rule alternatives_escaped)
  then show ?case by (simp add: foldr_push_Cons)
next
  case (3 k l ks)
  have "alternatives (re_escape k @ (CHR ''|'' # join ''|'' (map re_escape (l # ks))))
      = foldr push k (alternatives (CHR ''|'' # join ''|'' (map re_escape (l # ks))))"
    by (rule alternatives_escaped)
  also have "\<dots> = foldr push k ([] # alternatives (join ''|'' (map re_escape (l # ks))))"
    by (simp only: alternatives_bar)
  also have "\<dots> = k # alternatives (join ''|'' (map re_escape (l # ks)))"
    by (simp add: foldr_push_Cons)
  also have "\<dots> = k # l # ks" using 3 by simp
  finally show ?case by simp
qed

lemma keyword_pattern_matches:
  "kws \<noteq> [] \<Longrightarrow>
   str_contains (join ''|'' (map re_escape kws)) s
     \<longleftrightarrow> (\<exists>k \<in> set kws. sublist (lower k) (lower s))"
  by (simp add: str_contains_def alternatives_join_escaped list_ex_iff)

lemma empty_pattern_matches: "str_contains (join ''|'' []) s"
  by (simp add: str_contains_def lower_def)


lemma alternatives_literal:
  "backslash \<notin> set t \<Longrightarrow> CHR ''|'' \<notin> set t \<Longrightarrow>
   alternatives (t @ rest) = foldr push t (alternatives rest)"
proof (induction t)
  case Nil
  show ?case by simp
next
  case (Cons c t)
  then have "c \<noteq> backslash" and "c \<noteq> CHR ''|''" by auto
  then have "alternatives (c # (t @ rest)) = push c (alternatives (t @ rest))"
    by (rule alternatives_plain)
  with Cons show ?case by simp
qed

lemma alternatives_join_literal:
  "terms \<noteq> [] \<Longrightarrow> \<forall>t \<in> set terms. backslash \<notin> set t \<and> CHR ''|'' \<notin> set t \<Longrightarrow>
   alternatives (join ''|'' terms) = terms"
proof (induction terms rule: induct_list012)
  case 1
  then show ?case by simp
next
  case (2 t)
  then have "alternatives (t @ []) = foldr push t (alternatives [])"
    by (intro alternatives_literal) simp_all
  then show ?case by (simp add: foldr_push_Cons)
next
  case (3 t u ts)
  then have "alternatives (t @ (CHR ''|'' # join ''|'' (u # ts)))
      = foldr push t (alternatives (CHR ''|'' # join ''|'' (u # ts)))"
    by (intro alternatives_literal) simp_all
  also have "\<dots> = foldr push t ([] # alternatives (join ''|'' (u # ts)))"
    by (simp only: alternatives_bar)
  also have "\<dots> = t # alternatives (join ''|'' (u # ts))"
    by (simp add: foldr_push_Cons)
  also have "\<dots> = t # u # ts" using 3 by simp
  finally show ?case by simp
qed

lemma term_pattern_matches:
  "terms \<noteq> [] \<Longrightarrow> \<forall>t \<in> set terms. backslash \<notin> set t \<and> CHR ''|'' \<notin> set t \<Longrightarrow>
   str_contains (join ''|'' terms) s \<longleftrightarrow> (\<exists>t \<in> set terms. sublist (lower t) (lower s))"
  by (simp add: str_contains_def alternatives_join_literal list_ex_iff)












end
